theory Spec2Isabelle
  imports Complex_Main
begin

section \<open>JavaScript numbers and values\<close>

text \<open>
  The calculation engine (\<^verbatim>\<open>src/utils/calculations.js\<close>) and the social-impact routes
  (\<^verbatim>\<open>src/unnamed/part_003\<close>) compute with JavaScript numbers. A number is modelled as a
  finite real or one of the three special values of IEEE 754. Arithmetic on finite values
  is exact (no rounding, no overflow, no underflow); the special values follow IEEE 754.
  Signed zeros are not tracked: every zero divisor this program can produce comes from a
  sum that starts at the literal \<^verbatim>\<open>0\<close> or from \<^verbatim>\<open>n - 1\<close>, which is \<^verbatim>\<open>+0\<close>.
\<close>

datatype jsnum = Num real | PInf | NInf | NaN

text \<open>The infinity with the sign of \<open>s\<close>; \<open>NaN\<close> when \<open>s\<close> is zero.\<close>

definition inf_of_sign :: "real \<Rightarrow> jsnum" where
  "inf_of_sign s = (if 0 < s then PInf else if s < 0 then NInf else NaN)"

fun js_neg :: "jsnum \<Rightarrow> jsnum" where
  "js_neg (Num a) = Num (- a)"
| "js_neg PInf = NInf"
| "js_neg NInf = PInf"
| "js_neg NaN = NaN"

fun js_add :: "jsnum \<Rightarrow> jsnum \<Rightarrow> jsnum" where
  "js_add (Num a) (Num b) = Num (a + b)"
| "js_add NaN _ = NaN"
| "js_add _ NaN = NaN"
| "js_add PInf NInf = NaN"
| "js_add NInf PInf = NaN"
| "js_add PInf _ = PInf"
| "js_add _ PInf = PInf"
| "js_add NInf _ = NInf"
| "js_add _ NInf = NInf"

definition js_sub :: "jsnum \<Rightarrow> jsnum \<Rightarrow> jsnum" where
  "js_sub a b = js_add a (js_neg b)"

fun js_mul :: "jsnum \<Rightarrow> jsnum \<Rightarrow> jsnum" where
  "js_mul (Num a) (Num b) = Num (a * b)"
| "js_mul NaN _ = NaN"
| "js_mul _ NaN = NaN"
| "js_mul PInf (Num b) = inf_of_sign b"
| "js_mul NInf (Num b) = inf_of_sign (- b)"
| "js_mul (Num a) PInf = inf_of_sign a"
| "js_mul (Num a) NInf = inf_of_sign (- a)"
| "js_mul PInf PInf = PInf"
| "js_mul NInf NInf = PInf"
| "js_mul PInf NInf = NInf"
| "js_mul NInf PInf = NInf"

fun js_div :: "jsnum \<Rightarrow> jsnum \<Rightarrow> jsnum" where
  "js_div (Num a) (Num b) = (if b = 0 then inf_of_sign a else Num (a / b))"
| "js_div NaN _ = NaN"
| "js_div _ NaN = NaN"
| "js_div (Num a) PInf = Num 0"
| "js_div (Num a) NInf = Num 0"
| "js_div PInf (Num b) = (if 0 \<le> b then PInf else NInf)"
| "js_div NInf (Num b) = (if 0 \<le> b then NInf else PInf)"
| "js_div PInf PInf = NaN"
| "js_div PInf NInf = NaN"
| "js_div NInf PInf = NaN"
| "js_div NInf NInf = NaN"

text \<open>\<^verbatim>\<open>Math.exp\<close>.\<close>

fun js_exp :: "jsnum \<Rightarrow> jsnum" where
  "js_exp (Num a) = Num (exp a)"
| "js_exp PInf = PInf"
| "js_exp NInf = Num 0"
| "js_exp NaN = NaN"

text \<open>The comparisons \<^verbatim>\<open><=\<close> and \<^verbatim>\<open><\<close>: false whenever an operand is \<open>NaN\<close>.\<close>

fun js_le :: "jsnum \<Rightarrow> jsnum \<Rightarrow> bool" where
  "js_le (Num a) (Num b) = (a \<le> b)"
| "js_le NaN _ = False"
| "js_le _ NaN = False"
| "js_le NInf _ = True"
| "js_le _ PInf = True"
| "js_le PInf _ = False"
| "js_le _ NInf = False"

fun js_lt :: "jsnum \<Rightarrow> jsnum \<Rightarrow> bool" where
  "js_lt (Num a) (Num b) = (a < b)"
| "js_lt NaN _ = False"
| "js_lt _ NaN = False"
| "js_lt PInf _ = False"
| "js_lt _ NInf = False"
| "js_lt NInf _ = True"
| "js_lt _ PInf = True"

definition js_ge :: "jsnum \<Rightarrow> jsnum \<Rightarrow> bool" where
  "js_ge a b = js_le b a"

definition js_gt :: "jsnum \<Rightarrow> jsnum \<Rightarrow> bool" where
  "js_gt a b = js_lt b a"

text \<open>\<^verbatim>\<open>Math.max\<close> and \<^verbatim>\<open>Math.min\<close> of two arguments: \<open>NaN\<close> when an argument is \<open>NaN\<close>.\<close>

definition js_max :: "jsnum \<Rightarrow> jsnum \<Rightarrow> jsnum" where
  "js_max a b = (if a = NaN \<or> b = NaN then NaN else if js_le a b then b else a)"

definition js_min :: "jsnum \<Rightarrow> jsnum \<Rightarrow> jsnum" where
  "js_min a b = (if a = NaN \<or> b = NaN then NaN else if js_le a b then a else b)"

text \<open>
  The values a property read can yield here. \<open>Inherited\<close> stands for a member found on
  \<^verbatim>\<open>Object.prototype\<close> (a function, or the prototype object itself for \<^verbatim>\<open>__proto__\<close>):
  it is truthy, and converts to \<open>NaN\<close> in arithmetic.
\<close>

datatype jsval = Undefined | Null | Number jsnum | Inherited

fun to_number :: "jsval \<Rightarrow> jsnum" where
  "to_number (Number n) = n"
| "to_number Undefined = NaN"
| "to_number Null = Num 0"
| "to_number Inherited = NaN"

fun truthy :: "jsval \<Rightarrow> bool" where
  "truthy (Number n) = (n \<noteq> Num 0 \<and> n \<noteq> NaN)"
| "truthy Undefined = False"
| "truthy Null = False"
| "truthy Inherited = True"

text \<open>The operator \<^verbatim>\<open>a || b\<close>.\<close>

definition js_or :: "jsval \<Rightarrow> jsval \<Rightarrow> jsval" where
  "js_or a b = (if truthy a then a else b)"

text \<open>
  A plain object is an association list of its own properties in enumeration order. Its
  keys are distinct, and none is \<^verbatim>\<open>__proto__\<close> (an assignment to that key of an object
  literal creates no own property). Reading \<^verbatim>\<open>obj[k]\<close> finds an own property first and
  then walks the prototype chain, where the members of \<^verbatim>\<open>Object.prototype\<close> live; any
  other key is \<^verbatim>\<open>undefined\<close>.
\<close>

type_synonym jsobject = "(string \<times> jsnum) list"

definition object_prototype_names :: "string list" where
  "object_prototype_names =
     [''constructor'', ''__defineGetter__'', ''__defineSetter__'', ''hasOwnProperty'',
      ''__lookupGetter__'', ''__lookupSetter__'', ''isPrototypeOf'',
      ''propertyIsEnumerable'', ''toString'', ''valueOf'', ''__proto__'',
      ''toLocaleString'']"

definition get_prop :: "jsobject \<Rightarrow> string \<Rightarrow> jsval" where
  "get_prop obj k =
     (case map_of obj k of
        Some v \<Rightarrow> Number v
      | None \<Rightarrow> if k \<in> set object_prototype_names then Inherited else Undefined)"

text \<open>An object of finite numbers, as parsed from a request body or written as a literal.\<close>

definition num_obj :: "(string \<times> real) list \<Rightarrow> jsobject" where
  "num_obj kvs = map (\<lambda>(k, v). (k, Num v)) kvs"

text \<open>Reading \<^verbatim>\<open>xs[i]\<close> from an array: \<^verbatim>\<open>undefined\<close> outside the array.\<close>

definition array_get :: "jsnum list \<Rightarrow> int \<Rightarrow> jsval" where
  "array_get xs i = (if 0 \<le> i \<and> i < int (length xs) then Number (xs ! nat i) else Undefined)"

datatype error = Error string | RangeError string

section \<open>The year grid\<close>

text \<open>
  \<^verbatim>\<open>linspace(start, end, n)\<close>: \<^verbatim>\<open>new Array(n)\<close> raises a RangeError for a negative
  length; then \<^verbatim>\<open>step = (end - start) / (n - 1)\<close> and \<^verbatim>\<open>result[i] = start + step * i\<close>
  for \<^verbatim>\<open>i = 0 .. n - 1\<close>. The length \<open>n\<close> is an integer (the engine's \<^verbatim>\<open>points\<close>); the
  upper limit of array lengths and memory are not modelled.
\<close>

definition linspace :: "jsnum \<Rightarrow> jsnum \<Rightarrow> int \<Rightarrow> error + jsnum list" where
  "linspace start end_value n =
     (if n < 0 then Inl (RangeError ''Invalid array length'')
      else
        let step = js_div (js_sub end_value start) (Num (of_int (n - 1)))
        in Inr (map (\<lambda>i. js_add start (js_mul step (Num (of_nat i)))) [0..<nat n]))"

section \<open>The projection engine: \<^verbatim>\<open>performCalculations\<close>\<close>

text \<open>
  The parameters after destructuring. Numeric fields hold finite numbers; \<open>points\<close> is an
  integer; the three per-category objects are association lists in enumeration order.
\<close>

record roof_config =
  roof_area :: real
  GWP_roof :: real
  roof_division :: "(string \<times> real) list"

record calc_params = roof_config +
  decline_rate :: real
  full_savings :: "(string \<times> real) list"
  improvement_years :: "(string \<times> real) list"
  years_to_calculate :: real
  points :: int
  efficiency_degradation :: real
  climate_zone :: string

text \<open>The defaults of the destructuring pattern, used for every parameter left out.\<close>

definition default_params :: calc_params where
  "default_params =
     \<lparr> roof_area = 2776, GWP_roof = 3.33,
       roof_division = [(''Green Areas'', 25), (''Solar Power'', 25),
                        (''Water Management'', 25), (''Social Impact'', 25)],
       decline_rate = 0.03,
       full_savings = [(''Green Areas'', 1347.98), (''Solar Power'', 12142.5),
                       (''Water Management'', 1441.25), (''Social Impact'', 4180.0)],
       improvement_years = [(''Green Areas'', 0), (''Solar Power'', 1),
                            (''Water Management'', 2), (''Social Impact'', 3)],
       years_to_calculate = 50, points = 1000,
       efficiency_degradation = 0.005, climate_zone = ''temperate'' \<rparr>"

definition climateFactors :: "(string \<times> real) list" where
  "climateFactors =
     [(''temperate'', 1.0), (''tropical'', 1.2), (''arid'', 0.9),
      (''continental'', 1.1), (''polar'', 0.8)]"

definition cost_factors :: "(string \<times> real) list" where
  "cost_factors =
     [(''Green Areas'', 120), (''Solar Power'', 350), (''Water Management'', 80),
      (''Social Impact'', 150)]"

text \<open>\<^verbatim>\<open>calculateEstimatedCost(roof_area, roof_division)\<close>.\<close>

definition calculateEstimatedCost :: "real \<Rightarrow> (string \<times> real) list \<Rightarrow> jsnum" where
  "calculateEstimatedCost area division =
     foldl (\<lambda>total_cost (improvement, share).
              let area_for_improvement = js_mul (Num area) (js_div (Num share) (Num 100));
                  cost_for_improvement =
                    js_mul area_for_improvement
                      (to_number (js_or (get_prop (num_obj cost_factors) improvement)
                                        (Number (Num 100))))
              in js_add total_cost cost_for_improvement)
           (Num 0) division"

text \<open>
  The inner loop over \<^verbatim>\<open>improvement_years\<close> at one sample: every improvement whose start
  year is reached subtracts its degraded share of the annual saving from \<open>co2\<close>.
\<close>

fun apply_improvements ::
  "calc_params \<Rightarrow> jsobject \<Rightarrow> jsnum \<Rightarrow> jsnum \<Rightarrow> (string \<times> real) list \<Rightarrow> jsnum \<Rightarrow> jsnum" where
  "apply_improvements p savings cf year [] co2 = co2"
| "apply_improvements p savings cf year ((improvement, start_year) # rest) co2 =
     apply_improvements p savings cf year rest
       (if js_ge year (Num start_year) then
          (let years_active = js_sub year (Num start_year);
               efficiency =
                 js_max (Num 0)
                   (js_sub (Num 1) (js_mul (Num (efficiency_degradation p)) years_active))
           in js_sub co2
                (js_mul (js_div (js_mul (to_number (get_prop savings improvement)) efficiency)
                                (Num (of_int (points p))))
                        cf))
        else co2)"

text \<open>
  The outer loop, \<^verbatim>\<open>i = 1 .. length - 1\<close>: \<open>prev\<close> is \<^verbatim>\<open>co2_with_improvements[i - 1]\<close> and
  the list holds the years still to visit. Each sample is one step of natural decline, the
  improvements, and the floor \<^verbatim>\<open>Math.max(0, .)\<close>.
\<close>

fun improved_loop :: "calc_params \<Rightarrow> jsobject \<Rightarrow> jsnum \<Rightarrow> jsnum \<Rightarrow> jsnum list \<Rightarrow> jsnum list" where
  "improved_loop p savings cf prev [] = []"
| "improved_loop p savings cf prev (year # rest) =
     (let declined = js_mul prev (js_exp (js_mul (js_neg (Num (decline_rate p))) cf));
          co2 = js_max (Num 0)
                  (apply_improvements p savings cf year (improvement_years p) declined)
      in co2 # improved_loop p savings cf co2 rest)"

text \<open>
  The neutrality scan: the index of the first sample \<^verbatim>\<open><= 0\<close>, counting from \<open>i\<close>, or
  \<open>-1\<close> when the loop ends without a \<^verbatim>\<open>break\<close>.
\<close>

fun neutral_index :: "jsnum list \<Rightarrow> int \<Rightarrow> int" where
  "neutral_index [] i = - 1"
| "neutral_index (x # xs) i = (if js_le x (Num 0) then i else neutral_index xs (i + 1))"

text \<open>
  The result object. \<open>configuration\<close> keeps the computed entries (the echoed inputs are the
  parameters themselves); the \<^verbatim>\<open>summary\<close> strings are formatted copies of the other
  fields (\<^verbatim>\<open>toFixed\<close> raises nothing on a number) and are left out.

  In \<open>performCalculations\<close> the local variables carry the names of the source; where a
  result field has the same name, the local variable is what the field is set to. \<open>cf\<close>
  is the climate factor as a number, the conversion every product applies to it.
\<close>

record configuration =
  initial_co2 :: jsnum
  annual_savings :: jsobject
  climate_factor :: jsval

record timeline =
  years :: "jsnum list"
  co2_with_improvements :: "jsnum list"
  co2_natural_decline :: "jsnum list"

record neutrality =
  with_improvements :: jsval
  natural_decline :: jsval

record savings =
  annual :: jsnum
  ten_year :: jsnum

record economics =
  estimated_cost :: jsnum
  simple_payback_years :: jsnum
  roi_10yr :: jsnum

record intensity =
  carbon_per_sqm :: jsnum
  reduction_per_euro :: jsnum

record calc_result =
  configuration :: configuration
  timeline :: timeline
  neutrality :: neutrality
  savings :: savings
  economics :: economics
  intensity :: intensity

definition performCalculations :: "calc_params \<Rightarrow> error + calc_result" where
  "performCalculations p =
     (let climate_factor =
            js_or (get_prop (num_obj climateFactors) (climate_zone p)) (Number (Num 1.0))
      in
      if roof_area p \<le> 0 then Inl (Error ''Roof area must be positive'')
      else if GWP_roof p \<le> 0 then Inl (Error ''GWP_roof must be positive'')
      else if decline_rate p < 0 \<or> decline_rate p \<ge> 1
        then Inl (Error ''Decline rate must be between 0 and 1'')
      else if years_to_calculate p \<le> 0 then Inl (Error ''Years to calculate must be positive'')
      else if points p \<le> 0 then Inl (Error ''Points must be positive'')
      else
        let totalPercentage = foldl (\<lambda>sum val. sum + val) 0 (map snd (roof_division p))
        in
        if \<bar>totalPercentage - 100\<bar> > 0.01
          then Inl (Error ''Roof division percentages must sum to 100%'')
        else
          let initial_co2 = Num (GWP_roof p * roof_area p);
              annual_savings =
                map (\<lambda>(key, share).
                       (key, js_mul (to_number (get_prop (num_obj (full_savings p)) key))
                                    (js_div (Num share) (Num 100))))
                    (roof_division p)
          in
          case linspace (Num 0) (Num (years_to_calculate p)) (points p) of
            Inl e \<Rightarrow> Inl e
          | Inr years_smooth \<Rightarrow>
              let cf = to_number climate_factor;
                  co2_natural_decline =
                    map (\<lambda>year. js_mul initial_co2
                                   (js_exp (js_mul (js_mul (js_neg (Num (decline_rate p))) year) cf)))
                        years_smooth;
                  co2_with_improvements =
                    initial_co2 # improved_loop p annual_savings cf initial_co2 (tl years_smooth);
                  neutral_index_improved = neutral_index co2_with_improvements 0;
                  neutral_index_natural = neutral_index co2_natural_decline 0;
                  years_to_neutrality_improved =
                    (if neutral_index_improved > 0
                     then array_get years_smooth neutral_index_improved else Null);
                  years_to_neutrality_natural =
                    (if neutral_index_natural > 0
                     then array_get years_smooth neutral_index_natural else Null);
                  ten_year_index = \<lfloor>of_int (points p) / years_to_calculate p * 10\<rfloor>;
                  co2_without_improvements_10yr = array_get co2_natural_decline ten_year_index;
                  co2_with_improvements_10yr = array_get co2_with_improvements ten_year_index;
                  co2_savings_10yr =
                    js_sub (to_number co2_without_improvements_10yr)
                           (to_number co2_with_improvements_10yr);
                  total_annual_savings =
                    foldl (\<lambda>sum val. js_add sum val) (Num 0) (map snd annual_savings);
                  estimated_cost = calculateEstimatedCost (roof_area p) (roof_division p);
                  simple_payback_years = js_div estimated_cost total_annual_savings;
                  roi_10yr = js_mul (js_div co2_savings_10yr estimated_cost) (Num 100);
                  carbon_intensity_per_sqm = js_div initial_co2 (Num (roof_area p));
                  carbon_reduction_per_euro = js_div co2_savings_10yr estimated_cost
              in Inr \<lparr> configuration =
                         \<lparr> initial_co2 = initial_co2, annual_savings = annual_savings,
                           climate_factor = climate_factor \<rparr>,
                       timeline =
                         \<lparr> years = years_smooth, co2_with_improvements = co2_with_improvements,
                           co2_natural_decline = co2_natural_decline \<rparr>,
                       neutrality =
                         \<lparr> with_improvements = years_to_neutrality_improved,
                           natural_decline = years_to_neutrality_natural \<rparr>,
                       savings = \<lparr> annual = total_annual_savings, ten_year = co2_savings_10yr \<rparr>,
                       economics =
                         \<lparr> estimated_cost = estimated_cost,
                           simple_payback_years = simple_payback_years, roi_10yr = roi_10yr \<rparr>,
                       intensity =
                         \<lparr> carbon_per_sqm = carbon_intensity_per_sqm,
                           reduction_per_euro = carbon_reduction_per_euro \<rparr> \<rparr>)"

section \<open>The enhanced pipeline: \<^verbatim>\<open>performEnhancedCalculations\<close>\<close>

record enhanced_params = roof_config +
  plant_absorption :: real
  energy_emission :: real
  solar_emission :: real
  solar_reduction :: real
  heating_original :: real
  heating_reduced :: real
  water_emission :: real
  water_mitigated :: real
  water_collected :: real
  social_metrics :: "(string \<times> real) list"
  health_metrics :: "(string \<times> real) list"
  sdg_focus :: "string list"

definition default_enhanced_params :: enhanced_params where
  "default_enhanced_params =
     \<lparr> roof_area = 2776, GWP_roof = 3.33,
       roof_division = [(''Green Areas'', 25), (''Solar Power'', 25),
                        (''Water Management'', 25), (''Social Impact'', 25)],
       plant_absorption = 1347.976, energy_emission = 64095.68, solar_emission = 1747.13,
       solar_reduction = 12142.5, heating_original = 16720, heating_reduced = 12540,
       water_emission = 6849.81, water_mitigated = 1441.254, water_collected = 427,
       social_metrics = [(''social_network'', 11.08), (''trust'', 11.08),
                         (''reciprocity'', 11.08), (''safety_wellbeing'', 9.86),
                         (''social_equity'', 9.83), (''happiness'', 22.6),
                         (''stress_reduction'', 39.4), (''quality_of_life'', 35.3)],
       health_metrics = [(''hypertension_reduction'', 6.77), (''heat_wave_temperature'', 28),
                         (''mortality_reduction'', 15)],
       sdg_focus = [''Zero Hunger'', ''Good Health and Well-being'',
                    ''Clean Water and Sanitation'', ''Affordable and Clean Energy'',
                    ''Decent Work and Economic Growth'', ''Climate Action'', ''Life on Land'',
                    ''Partnerships for the Goals''] \<rparr>"

definition social_weights :: "(string \<times> real) list" where
  "social_weights =
     [(''social_network'', 0.1), (''trust'', 0.1), (''reciprocity'', 0.1),
      (''safety_wellbeing'', 0.15), (''social_equity'', 0.15), (''happiness'', 0.15),
      (''stress_reduction'', 0.15), (''quality_of_life'', 0.1)]"

text \<open>\<^verbatim>\<open>getSustainabilityRating(score)\<close> of \<^verbatim>\<open>calculations.js\<close>: seven tiers.\<close>

definition getSustainabilityRating :: "jsnum \<Rightarrow> string" where
  "getSustainabilityRating score =
     (if js_ge score (Num 90) then ''Outstanding''
      else if js_ge score (Num 80) then ''Excellent''
      else if js_ge score (Num 70) then ''Very Good''
      else if js_ge score (Num 60) then ''Good''
      else if js_ge score (Num 50) then ''Satisfactory''
      else if js_ge score (Num 40) then ''Acceptable''
      else ''Needs Improvement'')"

text \<open>\<^verbatim>\<open>getSdgAlignmentRating(score)\<close> of the social-impact routes: five tiers.\<close>

definition getSdgAlignmentRating :: "jsnum \<Rightarrow> string" where
  "getSdgAlignmentRating score =
     (if js_ge score (Num 90) then ''Exceptional''
      else if js_ge score (Num 70) then ''Strong''
      else if js_ge score (Num 50) then ''Good''
      else if js_ge score (Num 30) then ''Moderate''
      else ''Limited'')"

text \<open>\<^verbatim>\<open>getHealthImpactRating(score)\<close>.\<close>

definition getHealthImpactRating :: "jsnum \<Rightarrow> string" where
  "getHealthImpactRating score =
     (if js_ge score (Num 30) then ''Transformative''
      else if js_ge score (Num 20) then ''Significant''
      else if js_ge score (Num 10) then ''Moderate''
      else if js_ge score (Num 5) then ''Modest''
      else ''Minimal'')"

record health_score =
  health_impact_score :: jsnum

record sdg_alignment =
  sdg_alignment_score :: jsnum

record sustainability =
  sustainability_score :: jsnum
  rating :: string

text \<open>
  The scores of the enhanced result. Its \<^verbatim>\<open>economics\<close>, \<^verbatim>\<open>projections\<close> and \<^verbatim>\<open>summary\<close> parts
  are computed from the scores, raise nothing, and are left out.
\<close>

record enhanced_result =
  total_annual_co2_reduction :: jsnum
  social_impact_score :: jsnum
  health_impact :: health_score
  sdg_alignment :: sdg_alignment
  sustainability :: sustainability

text \<open>
  The loop over \<^verbatim>\<open>Object.entries(social_metrics)\<close> carries the pair
  \<^verbatim>\<open>(social_impact_score, total_weight)\<close>. (For a metric named like a member of
  \<^verbatim>\<open>Object.prototype\<close> the source appends to \<^verbatim>\<open>total_weight\<close> as a string; the score is
  already \<open>NaN\<close> then, and so is the quotient, as here.)
\<close>

definition performEnhancedCalculations :: "enhanced_params \<Rightarrow> error + enhanced_result" where
  "performEnhancedCalculations p =
     (if roof_area p \<le> 0 then Inl (Error ''Roof area must be positive'')
      else if GWP_roof p \<le> 0 then Inl (Error ''GWP_roof must be positive'')
      else
        let totalPercentage = foldl (\<lambda>sum val. sum + val) 0 (map snd (roof_division p))
        in
        if \<bar>totalPercentage - 100\<bar> > 0.01
          then Inl (Error ''Roof division percentages must sum to 100%'')
        else
          let initial_co2 = Num (GWP_roof p * roof_area p);
              total_annual_co2_reduction =
                Num (plant_absorption p + solar_reduction p
                     + (heating_original p - heating_reduced p) + water_mitigated p);
              (weighted_sum, total_weight) =
                foldl (\<lambda>(acc, total) (metric, val).
                         let weight = to_number (js_or (get_prop (num_obj social_weights) metric)
                                                       (Number (Num 0.1)))
                         in (js_add acc (js_mul (Num val) weight), js_add total weight))
                      (Num 0, Num 0) (social_metrics p);
              social_impact_score = js_div weighted_sum total_weight;
              health_impact_score =
                js_div (js_add (to_number (get_prop (num_obj (health_metrics p))
                                                    ''hypertension_reduction''))
                               (to_number (get_prop (num_obj (health_metrics p))
                                                    ''mortality_reduction'')))
                       (Num 2);
              sdg_alignment_score =
                js_min (Num 100)
                  (js_mul (js_div (Num (of_nat (length (sdg_focus p)))) (Num 17)) (Num 100));
              sustainability_score =
                js_add
                  (js_add
                     (js_add (js_mul (js_div total_annual_co2_reduction
                                             (js_mul initial_co2 (Num 0.1)))
                                     (Num 0.4))
                             (js_mul social_impact_score (Num 0.3)))
                     (js_mul health_impact_score (Num 0.2)))
                  (js_mul sdg_alignment_score (Num 0.1))
          in Inr \<lparr> total_annual_co2_reduction = total_annual_co2_reduction,
                   social_impact_score = social_impact_score,
                   health_impact = \<lparr> health_impact_score = health_impact_score \<rparr>,
                   sdg_alignment = \<lparr> sdg_alignment_score = sdg_alignment_score \<rparr>,
                   sustainability =
                     \<lparr> sustainability_score = sustainability_score,
                       rating = getSustainabilityRating sustainability_score \<rparr> \<rparr>)"

section \<open>The social-impact routes\<close>

text \<open>
  The handlers of \<^verbatim>\<open>/social/sdg-report\<close> and \<^verbatim>\<open>/social/health-impact\<close>, as functions of
  the destructured request body (\<open>None\<close> for a field left out); \<open>Inl\<close> carries the message
  of the 400 response. Report identifiers, timestamps, texts and the storing of the report
  belong to collaborators and are left out.
\<close>

record sdg_report_alignment = sdg_alignment +
  alignment_rating :: string

definition sdg_report :: "(string \<times> real) list option \<Rightarrow> string list option \<Rightarrow> string + sdg_report_alignment" where
  "sdg_report body_roof_division body_sdg_focus =
     (case (body_roof_division, body_sdg_focus) of
        (Some division, Some focus) \<Rightarrow>
          let sdgAlignmentScore =
                js_min (Num 100) (js_mul (js_div (Num (of_nat (length focus))) (Num 17)) (Num 100))
          in Inr \<lparr> sdg_alignment_score = sdgAlignmentScore,
                   alignment_rating = getSdgAlignmentRating sdgAlignmentScore \<rparr>
      | _ \<Rightarrow> Inl ''Roof division and SDG focus array are required'')"

record health_impacts = health_score +
  stress_reduction_percentage :: jsnum
  hypertension_reduction :: jsnum
  mortality_reduction :: jsnum
  productivity_increase :: jsnum
  sick_days_reduction :: jsnum
  health_impact_rating :: string

record economic_benefits =
  productivity_value_per_employee :: jsnum
  sick_day_savings :: jsnum
  total_economic_benefit :: jsnum
  roi_percentage :: jsnum

record health_report =
  green_roof_area :: jsnum
  health_impacts :: health_impacts
  economic_benefits :: economic_benefits

definition health_impact_report ::
  "real option \<Rightarrow> (string \<times> real) list option \<Rightarrow> real option \<Rightarrow> real option \<Rightarrow> real option
     \<Rightarrow> string + health_report" where
  "health_impact_report body_roof_area body_roof_division body_employees body_building_occupants
       body_green_view_percentage =
     (let employees = (case body_employees of None \<Rightarrow> 50 | Some e \<Rightarrow> e);
          green_view_percentage = (case body_green_view_percentage of None \<Rightarrow> 60 | Some v \<Rightarrow> v)
      in
      case (body_roof_area, body_roof_division) of
        (Some area, Some division) \<Rightarrow>
          if area = 0 then Inl ''Roof area and roof division are required''
          else
            let green_roof_area =
                  js_div (js_mul (Num area)
                            (to_number (js_or (get_prop (num_obj division) ''Green Areas'')
                                              (Number (Num 0)))))
                         (Num 100);
                stress_reduction_percentage =
                  js_mul (js_mul (Num 39.4) (js_div green_roof_area (Num area)))
                         (js_div (Num green_view_percentage) (Num 100));
                hypertension_reduction =
                  js_mul (js_mul (Num 6.77) (js_div green_roof_area (Num area)))
                         (js_div (Num green_view_percentage) (Num 100));
                mortality_reduction = js_mul (Num 15) (js_div green_roof_area (Num area));
                productivity_increase =
                  js_mul (js_mul (Num 22.6) (js_div green_roof_area (Num area)))
                         (js_div (Num green_view_percentage) (Num 100));
                sick_days_reduction =
                  js_mul (js_mul (Num 12.3) (js_div green_roof_area (Num area)))
                         (js_div (Num green_view_percentage) (Num 100));
                avg_salary = Num 50000;
                avg_sick_day_cost = Num 200;
                productivity_value = js_mul avg_salary (js_div productivity_increase (Num 100));
                sick_day_savings =
                  js_mul (js_mul avg_sick_day_cost (js_div sick_days_reduction (Num 100)))
                         (Num employees);
                total_economic_benefit =
                  js_add (js_mul productivity_value (Num employees)) sick_day_savings;
                health_impact_score =
                  js_div (js_add
                            (js_add
                               (js_add (js_add stress_reduction_percentage hypertension_reduction)
                                       mortality_reduction)
                               productivity_increase)
                            sick_days_reduction)
                         (Num 5)
            in Inr \<lparr> green_roof_area = green_roof_area,
                     health_impacts =
                       \<lparr> health_impact_score = health_impact_score,
                         stress_reduction_percentage = stress_reduction_percentage,
                         hypertension_reduction = hypertension_reduction,
                         mortality_reduction = mortality_reduction,
                         productivity_increase = productivity_increase,
                         sick_days_reduction = sick_days_reduction,
                         health_impact_rating = getHealthImpactRating health_impact_score \<rparr>,
                     economic_benefits =
                       \<lparr> productivity_value_per_employee = productivity_value,
                         sick_day_savings = sick_day_savings,
                         total_economic_benefit = total_economic_benefit,
                         roi_percentage =
                           js_mul (js_div total_economic_benefit
                                          (js_mul green_roof_area (Num 120)))
                                  (Num 100) \<rparr> \<rparr>
      | _ \<Rightarrow> Inl ''Roof area and roof division are required'')"

section \<open>Accepted configurations and example inputs\<close>

text \<open>
  A configuration is validated when it passes the six checks at the head of
  \<^verbatim>\<open>performCalculations\<close>.
\<close>

definition validated :: "calc_params \<Rightarrow> bool" where
  "validated p \<longleftrightarrow>
     0 < roof_area p \<and> 0 < GWP_roof p \<and> 0 \<le> decline_rate p \<and> decline_rate p < 1
     \<and> 0 < years_to_calculate p \<and> 0 < points p
     \<and> \<bar>foldl (\<lambda>sum val. sum + val) 0 (map snd (roof_division p)) - 100\<bar> \<le> 0.01"

text \<open>The default configuration with every full saving set to zero.\<close>

definition zero_savings_params :: calc_params where
  "zero_savings_params =
     default_params \<lparr> full_savings := [(''Green Areas'', 0), (''Solar Power'', 0),
                                       (''Water Management'', 0), (''Social Impact'', 0)] \<rparr>"

text \<open>
  The default configuration with the roof divided between two categories only: the
  defaults of \<^verbatim>\<open>full_savings\<close> and \<^verbatim>\<open>improvement_years\<close> still list all four.
\<close>

definition two_category_params :: calc_params where
  "two_category_params =
     default_params \<lparr> roof_division := [(''Green Areas'', 50), (''Solar Power'', 50)] \<rparr>"

text \<open>The default configuration with a \<^verbatim>\<open>climate_zone\<close> named like an inherited member.\<close>

definition toString_zone_params :: calc_params where
  "toString_zone_params = default_params \<lparr> climate_zone := ''toString'' \<rparr>"


text \<open>The \<^verbatim>\<open>sdg_focus\<close> example of the route's documentation.\<close>

definition four_goals :: "string list" where
  "four_goals = [''Zero Hunger'', ''Good Health and Well-being'', ''Clean Water and Sanitation'',
                 ''Affordable and Clean Energy'']"

section \<open>Basic facts about JavaScript arithmetic\<close>

lemma js_add_NaN_right [simp]: "js_add x NaN = NaN"
  by (cases x) simp_all

lemma js_mul_NaN_right [simp]: "js_mul x NaN = NaN"
  by (cases x) simp_all

lemma js_div_NaN_right [simp]: "js_div x NaN = NaN"
  by (cases x) simp_all

lemma js_sub_NaN_right [simp]: "js_sub x NaN = NaN"
  by (simp add: js_sub_def)

lemma js_sub_NaN_left [simp]: "js_sub NaN x = NaN"
  by (simp add: js_sub_def)

lemma js_sub_Num [simp]: "js_sub (Num a) (Num b) = Num (a - b)"
  by (simp add: js_sub_def)

lemma js_le_NaN_right [simp]: "js_le x NaN = False"
  by (cases x) simp_all

lemma js_max_NaN [simp]: "js_max x NaN = NaN" "js_max NaN x = NaN"
  by (simp_all add: js_max_def)



lemma foldl_plus_sum_list: "foldl (\<lambda>sum val. sum + val) a xs = a + sum_list (xs :: real list)"
  by (induction xs arbitrary: a) simp_all

lemma js_div_zero_cases: "js_div x (Num 0) \<in> {PInf, NInf, NaN}"
  by (cases x) (simp_all add: inf_of_sign_def)

lemma projr_eq: "\<not> isl x \<Longrightarrow> x = Inr (projr x)"
  by (cases x) simp_all

section \<open>The shape of an accepted result\<close>

lemma linspace_nonneg:
  "0 \<le> n \<Longrightarrow> \<exists>ys. linspace s e n = Inr ys"
  by (simp add: linspace_def Let_def)

lemma performCalculations_accepts:
  "validated p \<Longrightarrow> \<exists>r. performCalculations p = Inr r"
  using linspace_nonneg[of "points p" "Num 0" "Num (years_to_calculate p)"]
  by (auto simp: performCalculations_def validated_def Let_def split: sum.splits)

lemma performCalculations_validated:
  "performCalculations p = Inr r \<Longrightarrow> validated p"
  by (auto simp: performCalculations_def validated_def Let_def split: if_splits sum.splits)

lemma result_years:
  "performCalculations p = Inr r \<Longrightarrow>
     linspace (Num 0) (Num (years_to_calculate p)) (points p) = Inr (years (timeline r))"
  by (auto simp: performCalculations_def Let_def split: if_splits sum.splits)

lemma result_configuration:
  "performCalculations p = Inr r \<Longrightarrow>
     configuration r =
       \<lparr> initial_co2 = Num (GWP_roof p * roof_area p),
         annual_savings =
           map (\<lambda>(key, share).
                  (key, js_mul (to_number (get_prop (num_obj (full_savings p)) key))
                               (js_div (Num share) (Num 100))))
               (roof_division p),
         climate_factor =
           js_or (get_prop (num_obj climateFactors) (climate_zone p)) (Number (Num 1.0)) \<rparr>"
  by (auto simp: performCalculations_def Let_def split: if_splits sum.splits)

lemma result_natural:
  "performCalculations p = Inr r \<Longrightarrow>
     co2_natural_decline (timeline r) =
       map (\<lambda>year. js_mul (initial_co2 (configuration r))
                      (js_exp (js_mul (js_mul (js_neg (Num (decline_rate p))) year)
                                      (to_number (climate_factor (configuration r))))))
           (years (timeline r))"
  by (auto simp: performCalculations_def Let_def split: if_splits sum.splits)

lemma result_improved:
  "performCalculations p = Inr r \<Longrightarrow>
     co2_with_improvements (timeline r) =
       initial_co2 (configuration r)
       # improved_loop p (annual_savings (configuration r))
           (to_number (climate_factor (configuration r))) (initial_co2 (configuration r))
           (tl (years (timeline r)))"
  by (auto simp: performCalculations_def Let_def split: if_splits sum.splits)


lemma result_savings_annual:
  "performCalculations p = Inr r \<Longrightarrow>
     annual (savings r) =
       foldl (\<lambda>sum val. js_add sum val) (Num 0) (map snd (annual_savings (configuration r)))"
  by (auto simp: performCalculations_def Let_def split: if_splits sum.splits)

lemma result_economics:
  "performCalculations p = Inr r \<Longrightarrow>
     estimated_cost (economics r) = calculateEstimatedCost (roof_area p) (roof_division p)
     \<and> simple_payback_years (economics r) = js_div (estimated_cost (economics r)) (annual (savings r))"
  by (auto simp: performCalculations_def Let_def split: if_splits sum.splits)

lemma map_of_num_obj: "map_of (num_obj kvs) k = map_option Num (map_of kvs k)"
  by (induction kvs) (auto simp: num_obj_def)



lemma factor_number:
  "to_number (js_or (get_prop (num_obj kvs) k) (Number (Num d))) = NaN
   \<or> (\<exists>c. to_number (js_or (get_prop (num_obj kvs) k) (Number (Num d))) = Num c)"
  by (auto simp: get_prop_def js_or_def map_of_num_obj split: option.splits)

section \<open>Facts about the grid, the curves and the scan\<close>

lemma linspace_length: "linspace s e n = Inr ys \<Longrightarrow> length ys = nat n"
  by (auto simp: linspace_def Let_def split: if_splits)

lemma linspace_nth:
  assumes "linspace (Num 0) (Num h) n = Inr ys" and "2 \<le> n" and "i < nat n"
  shows "ys ! i = Num (of_nat i * (h / of_int (n - 1)))"
  using assms by (auto simp: linspace_def Let_def mult.commute split: if_splits)


lemma linspace_all_Num:
  assumes "linspace (Num 0) (Num h) n = Inr ys" and "2 \<le> n"
  shows "\<forall>y \<in> set ys. \<exists>a. y = Num a"
  using assms by (auto simp: linspace_def Let_def split: if_splits)

lemma linspace_single: "linspace s e 1 = Inr ys \<Longrightarrow> tl ys = []"
  by (auto simp: linspace_def Let_def)

lemma improved_loop_length: "length (improved_loop p sv cf prev ys) = length ys"
  by (induction ys arbitrary: prev) (simp_all add: Let_def)

lemma improved_loop_nth:
  "i < length ys \<Longrightarrow>
     \<exists>c. improved_loop p sv cf prev ys ! i
          = js_max (Num 0) (apply_improvements p sv cf (ys ! i) (improvement_years p) c)"
proof (induction ys arbitrary: prev i)
  case Nil
  then show ?case by simp
next
  case (Cons y ys)
  show ?case
  proof (cases i)
    case 0
    then show ?thesis by (auto simp: Let_def)
  next
    case (Suc j)
    with Cons.prems have "j < length ys" by simp
    from Cons.IH[OF this] show ?thesis by (simp add: Suc Let_def)
  qed
qed

lemma apply_improvements_NaN: "apply_improvements p sv cf year imps NaN = NaN"
  by (induction imps) (auto simp: Let_def)

lemma apply_improvements_missing:
  assumes "(k, s) \<in> set imps" and "js_ge year (Num s)" and "to_number (get_prop sv k) = NaN"
  shows "apply_improvements p sv cf year imps co2 = NaN"
  using assms(1)
proof (induction imps arbitrary: co2)
  case Nil
  then show ?case by simp
next
  case (Cons a imps)
  obtain k' s' where a: "a = (k', s')" by (cases a)
  show ?case
  proof (cases "a = (k, s)")
    case True
    then show ?thesis
      using assms(2,3) by (simp add: Let_def apply_improvements_NaN)
  next
    case False
    with Cons.prems have "(k, s) \<in> set imps" by simp
    from Cons.IH[OF this] show ?thesis by (simp add: a)
  qed
qed

lemma js_max_zero_cases: "js_max (Num 0) x = NaN \<or> js_ge (js_max (Num 0) x) (Num 0)"
  by (cases x) (simp_all add: js_max_def js_ge_def)

lemma improved_loop_floor:
  "x \<in> set (improved_loop p sv cf prev ys) \<Longrightarrow> x = NaN \<or> js_ge x (Num 0)"
proof (induction ys arbitrary: prev)
  case Nil
  then show ?case by simp
next
  case (Cons y ys)
  let ?co2 = "js_max (Num 0)
                (apply_improvements p sv cf y (improvement_years p)
                   (js_mul prev (js_exp (js_mul (js_neg (Num (decline_rate p))) cf))))"
  from Cons.prems have "x = ?co2 \<or> x \<in> set (improved_loop p sv cf ?co2 ys)"
    by (simp add: Let_def)
  then show ?case
  proof
    assume "x = ?co2"
    then show ?thesis using js_max_zero_cases by simp
  next
    assume "x \<in> set (improved_loop p sv cf ?co2 ys)"
    then show ?thesis by (rule Cons.IH)
  qed
qed

lemma apply_improvements_Num:
  assumes "\<forall>(k, s) \<in> set imps. \<exists>v. to_number (get_prop sv k) = Num v" and "0 < points p"
  shows "\<exists>x'. apply_improvements p sv (Num c) (Num y) imps (Num x) = Num x'"
  using assms(1)
proof (induction imps arbitrary: x)
  case Nil
  then show ?case by simp
next
  case (Cons a imps)
  obtain k s where a: "a = (k, s)" by (cases a)
  obtain v where v: "to_number (get_prop sv k) = Num v"
    using Cons.prems a by auto
  have rest: "\<forall>(k, s) \<in> set imps. \<exists>v. to_number (get_prop sv k) = Num v"
    using Cons.prems by simp
  have "\<exists>x1. (if js_ge (Num y) (Num s) then
          (let years_active = js_sub (Num y) (Num s);
               efficiency = js_max (Num 0)
                   (js_sub (Num 1) (js_mul (Num (efficiency_degradation p)) years_active))
           in js_sub (Num x)
                (js_mul (js_div (js_mul (to_number (get_prop sv k)) efficiency)
                                (Num (of_int (points p))))
                        (Num c)))
        else Num x) = Num x1"
    using assms(2) by (simp add: Let_def v js_max_def)
  then obtain x1 where x1: "(if js_ge (Num y) (Num s) then
          (let years_active = js_sub (Num y) (Num s);
               efficiency = js_max (Num 0)
                   (js_sub (Num 1) (js_mul (Num (efficiency_degradation p)) years_active))
           in js_sub (Num x)
                (js_mul (js_div (js_mul (to_number (get_prop sv k)) efficiency)
                                (Num (of_int (points p))))
                        (Num c)))
        else Num x) = Num x1" by blast
  show ?case
    unfolding a apply_improvements.simps x1 using Cons.IH[OF rest] .
qed

lemma improved_loop_Num:
  assumes sv: "\<forall>(k, s) \<in> set (improvement_years p). \<exists>v. to_number (get_prop sv k) = Num v"
    and pts: "0 < points p"
    and ys: "\<forall>y \<in> set ys. \<exists>a. y = Num a"
    and x: "x \<in> set (improved_loop p sv (Num c) (Num prev) ys)"
  shows "\<exists>a. x = Num a \<and> 0 \<le> a"
  using ys x
proof (induction ys arbitrary: prev)
  case Nil
  then show ?case by simp
next
  case (Cons y ys)
  obtain a where y: "y = Num a" using Cons.prems(1) by auto
  let ?declined = "prev * exp (- decline_rate p * c)"
  obtain x' where x': "apply_improvements p sv (Num c) (Num a) (improvement_years p) (Num ?declined) = Num x'"
    using apply_improvements_Num[OF sv pts] by blast
  have d: "js_mul (Num prev) (js_exp (js_mul (js_neg (Num (decline_rate p))) (Num c)))
           = Num ?declined"
    by simp
  have m: "js_max (Num 0) (Num x') = Num (max 0 x')"
    by (simp add: js_max_def max_def)
  have step: "improved_loop p sv (Num c) (Num prev) (y # ys)
              = Num (max 0 x') # improved_loop p sv (Num c) (Num (max 0 x')) ys"
    by (simp only: improved_loop.simps Let_def y d x' m)
  from Cons.prems(2) have "x = Num (max 0 x') \<or> x \<in> set (improved_loop p sv (Num c) (Num (max 0 x')) ys)"
    unfolding step by simp
  then show ?case
  proof
    assume "x = Num (max 0 x')"
    then show ?thesis by simp
  next
    assume "x \<in> set (improved_loop p sv (Num c) (Num (max 0 x')) ys)"
    moreover have "\<forall>y \<in> set ys. \<exists>a. y = Num a" using Cons.prems(1) by simp
    ultimately show ?thesis by (rule Cons.IH[rotated])
  qed
qed




section \<open>Facts about the climate factor\<close>

lemma unknown_zone_factor:
  assumes "zone \<notin> set [''temperate'', ''tropical'', ''arid'', ''continental'', ''polar'']"
    and "zone \<notin> set object_prototype_names"
  shows "js_or (get_prop (num_obj climateFactors) zone) (Number (Num 1)) = Number (Num 1)"
  using assms by (simp add: get_prop_def num_obj_def climateFactors_def js_or_def)

lemma temperate_factor:
  "js_or (get_prop (num_obj climateFactors) ''temperate'') (Number (Num 1)) = Number (Num 1)"
  by (simp add: get_prop_def num_obj_def climateFactors_def js_or_def)

lemma apply_improvements_zone:
  "apply_improvements (p \<lparr> climate_zone := z \<rparr>) sv cf y imps co2 = apply_improvements p sv cf y imps co2"
  by (induction imps arbitrary: co2) (auto simp: Let_def)

lemma improved_loop_zone:
  "improved_loop (p \<lparr> climate_zone := z \<rparr>) sv cf prev ys = improved_loop p sv cf prev ys"
  by (induction ys arbitrary: prev) (simp_all add: Let_def apply_improvements_zone)

section \<open>The default enhanced calculation\<close>

lemma enhanced_default_result:
  "performEnhancedCalculations default_enhanced_params =
     Inr \<lparr> total_annual_co2_reduction = Num (1911173 / 100),
           social_impact_score = Num (7643 / 400),
           health_impact = \<lparr> health_impact_score = Num (2177 / 200) \<rparr>,
           sdg_alignment = \<lparr> sdg_alignment_score = Num (800 / 17) \<rparr>,
           sustainability =
             \<lparr> sustainability_score = Num (164102880779 / 7857468000),
               rating = ''Needs Improvement'' \<rparr> \<rparr>"
  by (simp add: performEnhancedCalculations_def default_enhanced_params_def Let_def
        get_prop_def num_obj_def social_weights_def js_or_def js_min_def
        getSustainabilityRating_def js_ge_def)

section \<open>C1: payback when nothing is saved\<close>

text \<open>
  C1 (as amended). For every accepted configuration whose total annual savings equal \<open>0\<close>,
  \<^verbatim>\<open>simple_payback_years\<close> is the quotient \<^verbatim>\<open>estimated_cost / 0\<close> as JavaScript computes
  it: \<open>Infinity\<close> when the estimated cost is positive, and in every case one of \<open>Infinity\<close>,
  \<open>-Infinity\<close> and \<open>NaN\<close>. No null or sentinel value is returned.
\<close>

theorem payback_zero_savings:
  assumes "performCalculations p = Inr r" and "annual (savings r) = Num 0"
  shows "simple_payback_years (economics r) = js_div (estimated_cost (economics r)) (Num 0)
         \<and> simple_payback_years (economics r) \<in> {PInf, NInf, NaN}
         \<and> (\<forall>c. estimated_cost (economics r) = Num c \<and> 0 < c
                \<longrightarrow> simple_payback_years (economics r) = PInf)"
proof -
  have eq: "simple_payback_years (economics r) = js_div (estimated_cost (economics r)) (Num 0)"
    using result_economics[OF assms(1)] assms(2) by simp
  then show ?thesis
    using js_div_zero_cases[of "estimated_cost (economics r)"] by (auto simp: inf_of_sign_def)
qed

theorem payback_zero_savings_witness:
  "\<exists>r. performCalculations
          (default_params \<lparr> roof_division := [(''Solar Power'', 100)],
                            full_savings := [(''Solar Power'', 0)] \<rparr>) = Inr r
       \<and> annual (savings r) = Num 0
       \<and> simple_payback_years (economics r) \<in> {PInf, NInf, NaN}"
proof -
  let ?p = "default_params \<lparr> roof_division := [(''Solar Power'', 100)],
                             full_savings := [(''Solar Power'', 0)] \<rparr>"
  have "validated ?p"
    by (simp add: validated_def default_params_def)
  then obtain r where r: "performCalculations ?p = Inr r"
    using performCalculations_accepts by blast
  have a: "annual (savings r) = Num 0"
    by (simp add: result_savings_annual[OF r] result_configuration[OF r]
                  default_params_def get_prop_def num_obj_def)
  show ?thesis
    using payback_zero_savings[OF r a] r a by blast
qed

text \<open>
  The claim as stated fails: with the default roof and every full saving \<open>0\<close>, the total
  annual savings are \<open>0\<close> and the returned payback is \<open>485800 / 0 = Infinity\<close>.
\<close>

theorem payback_zero_savings_infinite:
  "\<not> isl (performCalculations zero_savings_params)
   \<and> annual (savings (projr (performCalculations zero_savings_params))) = Num 0
   \<and> simple_payback_years (economics (projr (performCalculations zero_savings_params))) = PInf"
proof -
  have v: "validated zero_savings_params"
    by (simp add: validated_def zero_savings_params_def default_params_def)
  then obtain r where r: "performCalculations zero_savings_params = Inr r"
    using performCalculations_accepts by blast
  have a: "annual (savings r) = Num 0"
    by (simp add: result_savings_annual[OF r] result_configuration[OF r]
                  zero_savings_params_def default_params_def get_prop_def num_obj_def)
  have c: "estimated_cost (economics r) = Num 485800"
    using result_economics[OF r]
    by (simp add: calculateEstimatedCost_def zero_savings_params_def default_params_def
                  get_prop_def num_obj_def cost_factors_def js_or_def)
  have "simple_payback_years (economics r) = PInf"
    using result_economics[OF r] a c by (simp add: inf_of_sign_def)
  with a r show ?thesis by simp
qed

section \<open>C2: which rating scale is used where\<close>

text \<open>
  C2 (as amended). The rating attached by the enhanced pipeline is the seven-tier scale
  (Outstanding \<open>\<ge> 90\<close>, Excellent \<open>\<ge> 80\<close>, Very Good \<open>\<ge> 70\<close>, Good \<open>\<ge> 60\<close>, Satisfactory \<open>\<ge> 50\<close>,
  Acceptable \<open>\<ge> 40\<close>, else Needs Improvement) applied to the sustainability score; the rating
  attached to the alignment score of the standalone SDG report is the five-tier scale
  (Exceptional \<open>\<ge> 90\<close>, Strong \<open>\<ge> 70\<close>, Good \<open>\<ge> 50\<close>, Moderate \<open>\<ge> 30\<close>, else Limited).
\<close>

theorem rating_scales_by_call_site:
  "(performEnhancedCalculations p = Inr r \<longrightarrow>
      rating (sustainability r) =
        (let score = sustainability_score (sustainability r) in
         if js_ge score (Num 90) then ''Outstanding''
         else if js_ge score (Num 80) then ''Excellent''
         else if js_ge score (Num 70) then ''Very Good''
         else if js_ge score (Num 60) then ''Good''
         else if js_ge score (Num 50) then ''Satisfactory''
         else if js_ge score (Num 40) then ''Acceptable''
         else ''Needs Improvement''))
   \<and> (sdg_report body_roof_division body_sdg_focus = Inr a \<longrightarrow>
      alignment_rating a =
        (let score = sdg_alignment_score a in
         if js_ge score (Num 90) then ''Exceptional''
         else if js_ge score (Num 70) then ''Strong''
         else if js_ge score (Num 50) then ''Good''
         else if js_ge score (Num 30) then ''Moderate''
         else ''Limited''))"
proof (intro conjI impI)
  assume "performEnhancedCalculations p = Inr r"
  then have "rating (sustainability r)
             = getSustainabilityRating (sustainability_score (sustainability r))"
    by (auto simp: performEnhancedCalculations_def Let_def split: if_splits prod.splits)
  then show "rating (sustainability r) =
        (let score = sustainability_score (sustainability r) in
         if js_ge score (Num 90) then ''Outstanding''
         else if js_ge score (Num 80) then ''Excellent''
         else if js_ge score (Num 70) then ''Very Good''
         else if js_ge score (Num 60) then ''Good''
         else if js_ge score (Num 50) then ''Satisfactory''
         else if js_ge score (Num 40) then ''Acceptable''
         else ''Needs Improvement'')"
    by (simp add: getSustainabilityRating_def Let_def)
next
  assume "sdg_report body_roof_division body_sdg_focus = Inr a"
  then have "alignment_rating a = getSdgAlignmentRating (sdg_alignment_score a)"
    by (auto simp: sdg_report_def Let_def split: option.splits)
  then show "alignment_rating a =
        (let score = sdg_alignment_score a in
         if js_ge score (Num 90) then ''Exceptional''
         else if js_ge score (Num 70) then ''Strong''
         else if js_ge score (Num 50) then ''Good''
         else if js_ge score (Num 30) then ''Moderate''
         else ''Limited'')"
    by (simp add: getSdgAlignmentRating_def Let_def)
qed

theorem rating_scales_by_call_site_witness:
  "rating (sustainability (projr (performEnhancedCalculations default_enhanced_params)))
     = ''Needs Improvement''
   \<and> (\<exists>a. sdg_report (Some []) (Some four_goals) = Inr a \<and> alignment_rating a = ''Limited'')"
proof -
  let ?r = "projr (performEnhancedCalculations default_enhanced_params)"
  have r: "performEnhancedCalculations default_enhanced_params = Inr ?r"
    by (simp add: enhanced_default_result)
  have s: "sustainability_score (sustainability ?r) = Num (164102880779 / 7857468000)"
    by (simp add: enhanced_default_result)
  have 1: "rating (sustainability ?r) = ''Needs Improvement''"
    using conjunct1[OF rating_scales_by_call_site, rule_format, OF r]
    by (simp add: s js_ge_def)
  obtain a where a: "sdg_report (Some []) (Some four_goals) = Inr a"
    by (simp add: sdg_report_def Let_def)
  have sa: "sdg_alignment_score a = Num (400 / 17)"
    using a by (auto simp: sdg_report_def Let_def four_goals_def js_min_def)
  have 2: "alignment_rating a = ''Limited''"
    using conjunct2[OF rating_scales_by_call_site, rule_format, OF a]
    by (simp add: sa js_ge_def)
  show ?thesis using 1 a 2 by blast
qed

text \<open>
  The claim as stated fails, the two scales being attached the other way round: the
  default enhanced calculation scores about \<open>20.9\<close> and is rated ``Needs Improvement'',
  where the five-tier scale says ``Limited''; an SDG report on four goals scores
  \<open>400 / 17\<close> and is rated ``Limited'', where the seven-tier scale says
  ``Needs Improvement''.
\<close>

theorem rating_scales_swapped:
  "rating (sustainability (projr (performEnhancedCalculations default_enhanced_params)))
     = ''Needs Improvement''
   \<and> getSdgAlignmentRating
       (sustainability_score (sustainability (projr (performEnhancedCalculations default_enhanced_params))))
     = ''Limited''
   \<and> alignment_rating (projr (sdg_report (Some (roof_division default_enhanced_params)) (Some four_goals)))
     = ''Limited''
   \<and> getSustainabilityRating
       (sdg_alignment_score (projr (sdg_report (Some (roof_division default_enhanced_params)) (Some four_goals))))
     = ''Needs Improvement''"
proof -
  have 2: "getSdgAlignmentRating (Num (164102880779 / 7857468000)) = ''Limited''"
    by (simp add: getSdgAlignmentRating_def js_ge_def)
  have 3: "sdg_report (Some (roof_division default_enhanced_params)) (Some four_goals)
           = Inr \<lparr> sdg_alignment_score = Num (400 / 17), alignment_rating = ''Limited'' \<rparr>"
    by (simp add: sdg_report_def four_goals_def js_min_def getSdgAlignmentRating_def js_ge_def)
  have 4: "getSustainabilityRating (Num (400 / 17)) = ''Needs Improvement''"
    by (simp add: getSustainabilityRating_def js_ge_def)
  show ?thesis using enhanced_default_result 2 3 4 by simp
qed

section \<open>C3: the neutrality year\<close>




section \<open>C4: the floor of the improved curve\<close>

text \<open>
  C4 (the code departs from it). The claim is that every element of
  \<^verbatim>\<open>co2_with_improvements\<close> of an accepted configuration is \<^verbatim>\<open>>= 0\<close>. With the roof divided
  between two categories and everything else at its default, \<^verbatim>\<open>improvement_years\<close> still
  lists ``Water Management'' from year 2, \<^verbatim>\<open>annual_savings\<close> has no such entry, and every
  sample from index 40 on (the first year \<open>\<ge> 2\<close> on the default grid) is \<open>NaN\<close>, which
  \<^verbatim>\<open>Math.max(0, .)\<close> lets through and which is not \<^verbatim>\<open>>= 0\<close>.
\<close>

theorem floor_fails_on_missing_category:
  "\<not> isl (performCalculations two_category_params)
   \<and> drop 40 (co2_with_improvements (timeline (projr (performCalculations two_category_params))))
       = replicate 960 NaN
   \<and> \<not> js_ge (co2_with_improvements (timeline (projr (performCalculations two_category_params))) ! 40)
              (Num 0)"
proof -
  let ?p = two_category_params
  have "validated ?p"
    by (simp add: validated_def two_category_params_def default_params_def)
  then obtain r where r: "performCalculations ?p = Inr r"
    using performCalculations_accepts by blast
  let ?ys = "years (timeline r)"
  let ?sv = "annual_savings (configuration r)"
  let ?cf = "to_number (climate_factor (configuration r))"
  let ?imp = "co2_with_improvements (timeline r)"
  have n: "(2::int) \<le> points ?p" and pts: "points ?p = 1000" and h: "years_to_calculate ?p = 50"
    by (simp_all add: two_category_params_def default_params_def)
  have leny: "length ?ys = 1000"
    using linspace_length[OF result_years[OF r]] pts by simp
  have missing: "to_number (get_prop ?sv ''Water Management'') = NaN"
    unfolding result_configuration[OF r]
    by (simp add: two_category_params_def default_params_def get_prop_def
                  object_prototype_names_def)
  have mem: "(''Water Management'', 2) \<in> set (improvement_years ?p)"
    by (simp add: two_category_params_def default_params_def)
  have len: "length ?imp = 1000"
    using leny by (simp add: result_improved[OF r] improved_loop_length)
  have nan: "?imp ! (40 + i) = NaN" if "i < 960" for i
  proof -
    have lt: "39 + i < length (tl ?ys)" using that leny by simp
    have y: "tl ?ys ! (39 + i) = Num (of_nat (40 + i) * (50 / 999))"
      using linspace_nth[OF result_years[OF r] n, of "40 + i"] that leny pts h
      by (simp add: nth_tl)
    have ge: "js_ge (tl ?ys ! (39 + i)) (Num 2)"
      unfolding y by (simp add: js_ge_def)
    obtain c where c: "improved_loop ?p ?sv ?cf (initial_co2 (configuration r)) (tl ?ys) ! (39 + i)
          = js_max (Num 0) (apply_improvements ?p ?sv ?cf (tl ?ys ! (39 + i)) (improvement_years ?p) c)"
      using improved_loop_nth[OF lt] by blast
    have "?imp ! (40 + i)
          = improved_loop ?p ?sv ?cf (initial_co2 (configuration r)) (tl ?ys) ! (39 + i)"
      by (simp add: result_improved[OF r])
    then show ?thesis
      unfolding c using apply_improvements_missing[OF mem ge missing] by simp
  qed
  have "drop 40 ?imp = replicate 960 NaN"
    using len nan by (intro nth_equalityI) simp_all
  moreover have "\<not> js_ge (?imp ! 40) (Num 0)"
    using nan[of 0] by (simp add: js_ge_def)
  ultimately show ?thesis using r by simp
qed

text \<open>
  What the floor does guarantee: every sample is \<open>NaN\<close> or \<^verbatim>\<open>>= 0\<close>; and it is a
  non-negative number whenever the climate factor is a number and every category of
  \<^verbatim>\<open>improvement_years\<close> has a numeric entry in \<^verbatim>\<open>annual_savings\<close>.
\<close>

lemma improved_curve_floor_or_NaN:
  assumes "performCalculations p = Inr r" and "x \<in> set (co2_with_improvements (timeline r))"
  shows "x = NaN \<or> js_ge x (Num 0)"
proof -
  have init: "0 < GWP_roof p * roof_area p"
    using performCalculations_validated[OF assms(1)] by (simp add: validated_def)
  have c0: "initial_co2 (configuration r) = Num (GWP_roof p * roof_area p)"
    by (simp add: result_configuration[OF assms(1)])
  from assms(2) have "x = initial_co2 (configuration r)
      \<or> x \<in> set (improved_loop p (annual_savings (configuration r))
                     (to_number (climate_factor (configuration r)))
                     (initial_co2 (configuration r)) (tl (years (timeline r))))"
    by (simp add: result_improved[OF assms(1)])
  then show ?thesis
  proof
    assume "x = initial_co2 (configuration r)"
    then show ?thesis using init c0 by (simp add: js_ge_def)
  next
    assume "x \<in> set (improved_loop p (annual_savings (configuration r))
                     (to_number (climate_factor (configuration r)))
                     (initial_co2 (configuration r)) (tl (years (timeline r))))"
    then show ?thesis by (rule improved_loop_floor)
  qed
qed

lemma improved_curve_floor_finite:
  assumes r: "performCalculations p = Inr r"
    and cf: "to_number (climate_factor (configuration r)) \<noteq> NaN"
    and sv: "\<forall>(k, s) \<in> set (improvement_years p).
               \<exists>v. to_number (get_prop (annual_savings (configuration r)) k) = Num v"
    and x: "x \<in> set (co2_with_improvements (timeline r))"
  shows "\<exists>a. x = Num a \<and> 0 \<le> a"
proof -
  have v: "validated p" using performCalculations_validated[OF r] .
  have init: "0 < GWP_roof p * roof_area p" and pts: "0 < points p"
    using v by (simp_all add: validated_def)
  have c0: "initial_co2 (configuration r) = Num (GWP_roof p * roof_area p)"
    by (simp add: result_configuration[OF r])
  obtain c where c: "to_number (climate_factor (configuration r)) = Num c"
  proof -
    have "to_number (climate_factor (configuration r)) = NaN
          \<or> (\<exists>c. to_number (climate_factor (configuration r)) = Num c)"
      unfolding result_configuration[OF r] using factor_number by simp
    with cf that show ?thesis by auto
  qed
  have tl_num: "\<forall>y \<in> set (tl (years (timeline r))). \<exists>a. y = Num a"
  proof (cases "points p = 1")
    case True
    then show ?thesis using linspace_single result_years[OF r] by simp
  next
    case False
    with pts have "2 \<le> points p" by simp
    from linspace_all_Num[OF result_years[OF r] this] show ?thesis
      by (cases "years (timeline r)") simp_all
  qed
  from x have "x = Num (GWP_roof p * roof_area p)
      \<or> x \<in> set (improved_loop p (annual_savings (configuration r)) (Num c)
                     (Num (GWP_roof p * roof_area p)) (tl (years (timeline r))))"
    by (simp add: result_improved[OF r] c0 c)
  then show ?thesis
  proof
    assume "x = Num (GWP_roof p * roof_area p)"
    then show ?thesis using init by simp
  next
    assume "x \<in> set (improved_loop p (annual_savings (configuration r)) (Num c)
                     (Num (GWP_roof p * roof_area p)) (tl (years (timeline r))))"
    then show ?thesis by (rule improved_loop_Num[OF sv pts tl_num])
  qed
qed

section \<open>C5: the year grid\<close>




section \<open>C6: rejection of a bad roof division\<close>




section \<open>C7: the natural curve decreases\<close>

text \<open>
  C7. For every accepted configuration with \<open>decline_rate > 0\<close>, climate factor \<open>> 0\<close> and
  \<open>points \<ge> 2\<close>, the sequence \<^verbatim>\<open>co2_natural_decline\<close> is strictly decreasing: each sample
  is smaller than the one before (exact arithmetic).
\<close>

theorem natural_decline_strictly_decreasing:
  assumes r: "performCalculations p = Inr r" and d: "0 < decline_rate p" and n: "2 \<le> points p"
    and cf: "js_gt (to_number (climate_factor (configuration r))) (Num 0)"
  shows "\<forall>i. Suc i < length (co2_natural_decline (timeline r))
           \<longrightarrow> js_lt (co2_natural_decline (timeline r) ! Suc i)
                      (co2_natural_decline (timeline r) ! i)"
proof (intro allI impI)
  fix i
  let ?ys = "years (timeline r)"
  let ?step = "years_to_calculate p / of_int (points p - 1)"
  assume i: "Suc i < length (co2_natural_decline (timeline r))"
  have v: "validated p" using performCalculations_validated[OF r] .
  have init: "0 < GWP_roof p * roof_area p" using v by (simp add: validated_def)
  have step: "0 < ?step" using v n by (simp add: validated_def)
  have leny: "length ?ys = nat (points p)" using linspace_length[OF result_years[OF r]] .
  have i': "Suc i < nat (points p)" using i leny by (simp add: result_natural[OF r])
  have y0: "?ys ! i = Num (of_nat i * ?step)"
    using linspace_nth[OF result_years[OF r] n] i' by simp
  have y1: "?ys ! Suc i = Num (of_nat (Suc i) * ?step)"
    using linspace_nth[OF result_years[OF r] n i'] .
  obtain c where c: "to_number (climate_factor (configuration r)) = Num c" "0 < c"
  proof -
    have "to_number (climate_factor (configuration r)) = NaN
          \<or> (\<exists>c. to_number (climate_factor (configuration r)) = Num c)"
      unfolding result_configuration[OF r] using factor_number by simp
    with cf that show ?thesis by (auto simp: js_gt_def)
  qed
  have c0: "initial_co2 (configuration r) = Num (GWP_roof p * roof_area p)"
    by (simp add: result_configuration[OF r])
  have n0: "co2_natural_decline (timeline r) ! i
            = Num (GWP_roof p * roof_area p * exp (- decline_rate p * (of_nat i * ?step) * c))"
    using i' leny by (simp add: result_natural[OF r] c0 c y0)
  have n1: "co2_natural_decline (timeline r) ! Suc i
            = Num (GWP_roof p * roof_area p * exp (- decline_rate p * (of_nat (Suc i) * ?step) * c))"
    using i' leny by (simp add: result_natural[OF r] c0 c y1 del: of_nat_Suc)
  have mono: "real i * s < real (Suc i) * s" if "0 < s" for s :: real
    using that by (simp add: distrib_right)
  have "real i * ?step < real (Suc i) * ?step"
    using step by (rule mono)
  then have "decline_rate p * (real i * ?step) < decline_rate p * (real (Suc i) * ?step)"
    using d by (simp only: mult_less_cancel_left_pos)
  then have "decline_rate p * (real i * ?step) * c < decline_rate p * (real (Suc i) * ?step) * c"
    using c(2) by (simp only: mult_less_cancel_right_pos)
  then have "- decline_rate p * (real (Suc i) * ?step) * c < - decline_rate p * (real i * ?step) * c"
    by (simp only: mult_minus_left neg_less_iff_less)
  then have "exp (- decline_rate p * (real (Suc i) * ?step) * c)
             < exp (- decline_rate p * (real i * ?step) * c)"
    by (simp only: exp_less_cancel_iff)
  then have "GWP_roof p * roof_area p * exp (- decline_rate p * (real (Suc i) * ?step) * c)
             < GWP_roof p * roof_area p * exp (- decline_rate p * (real i * ?step) * c)"
    using init by (simp only: mult_less_cancel_left_pos)
  then show "js_lt (co2_natural_decline (timeline r) ! Suc i) (co2_natural_decline (timeline r) ! i)"
    unfolding n0 n1 by simp
qed

theorem natural_decline_strictly_decreasing_witness:
  "\<exists>r. performCalculations default_params = Inr r
       \<and> 0 < decline_rate default_params \<and> 2 \<le> points default_params
       \<and> js_gt (to_number (climate_factor (configuration r))) (Num 0)
       \<and> js_lt (co2_natural_decline (timeline r) ! Suc 0) (co2_natural_decline (timeline r) ! 0)"
proof -
  have "validated default_params"
    by (simp add: validated_def default_params_def)
  then obtain r where r: "performCalculations default_params = Inr r"
    using performCalculations_accepts by blast
  have d: "0 < decline_rate default_params" and n: "2 \<le> points default_params"
    by (simp_all add: default_params_def)
  have cf: "js_gt (to_number (climate_factor (configuration r))) (Num 0)"
    unfolding result_configuration[OF r]
    by (simp add: default_params_def get_prop_def num_obj_def climateFactors_def js_or_def js_gt_def)
  have len: "length (co2_natural_decline (timeline r)) = 1000"
    using linspace_length[OF result_years[OF r]]
    by (simp add: result_natural[OF r] default_params_def)
  have "js_lt (co2_natural_decline (timeline r) ! Suc 0) (co2_natural_decline (timeline r) ! 0)"
    using natural_decline_strictly_decreasing[OF r d n cf] len by simp
  with r d n cf show ?thesis by blast
qed

section \<open>C8: the health-impact formulas\<close>

text \<open>
  C8. With \<open>green = roof_area * roof_division["Green Areas"] / 100\<close> and \<open>view\<close> the green
  view percentage (60 when left out), the five impact values are the constants 39.4, 6.77,
  15, 22.6 and 12.3 times \<open>green / roof_area\<close>, all but the mortality value (15) times
  \<open>view / 100\<close> as well, and the health impact score is their unweighted mean. The witness
  is the example of the claim: area 2776, share 25, view 60 give \<open>green = 694\<close> and a stress
  reduction of \<open>5.91\<close>.
\<close>

theorem health_impact_formula:
  assumes "area \<noteq> 0" and "map_of division ''Green Areas'' = Some share"
    and "green = area * share / 100"
    and "view = (case body_view of None \<Rightarrow> 60 | Some x \<Rightarrow> x)"
  shows "\<exists>rep. health_impact_report (Some area) (Some division) body_employees body_occupants
                 body_view = Inr rep
           \<and> green_roof_area rep = Num green
           \<and> stress_reduction_percentage (health_impacts rep)
               = Num (39.4 * (green / area) * (view / 100))
           \<and> hypertension_reduction (health_impacts rep)
               = Num (6.77 * (green / area) * (view / 100))
           \<and> mortality_reduction (health_impacts rep) = Num (15 * (green / area))
           \<and> productivity_increase (health_impacts rep)
               = Num (22.6 * (green / area) * (view / 100))
           \<and> sick_days_reduction (health_impacts rep)
               = Num (12.3 * (green / area) * (view / 100))
           \<and> health_impact_score (health_impacts rep)
               = Num ((39.4 * (green / area) * (view / 100)
                       + 6.77 * (green / area) * (view / 100)
                       + 15 * (green / area)
                       + 22.6 * (green / area) * (view / 100)
                       + 12.3 * (green / area) * (view / 100)) / 5)"
  unfolding assms(3,4) using assms(1,2)
  by (simp add: health_impact_report_def Let_def get_prop_def map_of_num_obj js_or_def)

theorem health_impact_formula_witness:
  "\<exists>rep. health_impact_report (Some 2776) (Some (roof_division default_params)) None None (Some 60)
           = Inr rep
         \<and> green_roof_area rep = Num 694
         \<and> stress_reduction_percentage (health_impacts rep) = Num 5.91"
  using health_impact_formula
          [of 2776 "roof_division default_params" 25 694 60 "Some 60" None None]
  by (auto simp: default_params_def)

section \<open>C9: a category without a full saving\<close>



section \<open>C10: unrecognised climate zones\<close>

text \<open>
  C10 (the code departs from it). The claim is that every \<^verbatim>\<open>climate_zone\<close> string other
  than the five recognised zones gets the climate factor \<open>1.0\<close>. For the zone
  \<^verbatim>\<open>"toString"\<close> the read \<^verbatim>\<open>climateFactors[climate_zone]\<close> finds the function inherited from
  \<^verbatim>\<open>Object.prototype\<close>, which is truthy, so \<^verbatim>\<open>|| 1.0\<close> does not apply: the climate factor
  is that function, and every sample of the natural curve is \<open>NaN\<close>.
\<close>

theorem inherited_zone_not_default:
  "\<not> isl (performCalculations toString_zone_params)
   \<and> climate_factor (configuration (projr (performCalculations toString_zone_params))) = Inherited
   \<and> co2_natural_decline (timeline (projr (performCalculations toString_zone_params)))
       = replicate 1000 NaN"
proof -
  have "validated toString_zone_params"
    by (simp add: validated_def toString_zone_params_def default_params_def)
  then obtain r where r: "performCalculations toString_zone_params = Inr r"
    using performCalculations_accepts by blast
  have f: "climate_factor (configuration r) = Inherited"
    unfolding result_configuration[OF r]
    by (simp add: toString_zone_params_def default_params_def get_prop_def num_obj_def
                  climateFactors_def js_or_def object_prototype_names_def)
  have len: "length (years (timeline r)) = 1000"
    using linspace_length[OF result_years[OF r]]
    by (simp add: toString_zone_params_def default_params_def)
  have "co2_natural_decline (timeline r) = map (\<lambda>year. NaN) (years (timeline r))"
    unfolding result_natural[OF r] f by simp
  then have "co2_natural_decline (timeline r) = replicate 1000 NaN"
    using len by (simp add: map_replicate_const)
  with r f show ?thesis by simp
qed

text \<open>
  For every other unrecognised zone the claim holds: the factor is \<open>1\<close>, the whole result
  is that of \<^verbatim>\<open>'temperate'\<close>, and no zone changes whether a configuration is rejected.
\<close>

lemma unknown_zone_default:
  assumes "performCalculations p = Inr r"
    and "climate_zone p \<notin> set [''temperate'', ''tropical'', ''arid'', ''continental'', ''polar'']"
    and "climate_zone p \<notin> set object_prototype_names"
  shows "climate_factor (configuration r) = Number (Num 1)"
  unfolding result_configuration[OF assms(1)] using unknown_zone_factor[OF assms(2,3)] by simp

lemma unknown_zone_as_temperate:
  assumes "zone \<notin> set [''temperate'', ''tropical'', ''arid'', ''continental'', ''polar'']"
    and "zone \<notin> set object_prototype_names"
  shows "performCalculations (p \<lparr> climate_zone := zone \<rparr>)
         = performCalculations (p \<lparr> climate_zone := ''temperate'' \<rparr>)"
  unfolding performCalculations_def
  by (simp add: Let_def unknown_zone_factor[OF assms] temperate_factor improved_loop_zone
           split: sum.splits)

lemma zone_never_rejects:
  "isl (performCalculations (p \<lparr> climate_zone := zone \<rparr>)) = isl (performCalculations p)"
  by (auto simp: performCalculations_def Let_def linspace_def split: if_splits sum.splits)

end
